theory Spec2Isabelle
  imports Main "HOL-Library.AList" "HOL-Library.Sublist"
begin

section \<open>Data model of bin/ci/ci\_run\_n\_monitor.py\<close>

text \<open>
  A job snapshot as the remote service returns it: the attributes the script reads are
  \<open>job.id\<close>, \<open>job.name\<close>, \<open>job.web_url\<close> and \<open>job.status\<close>. Statuses are
  Python strings.
\<close>

record job =
  job_id :: int
  name :: string
  web_url :: string
  status :: string

text \<open>The colour constants of colorama that the script uses (the empty string is \<open>No_color\<close>).\<close>

datatype color = No_color | Fore_BLUE | Fore_GREEN | Fore_RED | Fore_MAGENTA

text \<open>
  Everything the script does to the outside world, in the order it does it: lines printed
  on the console and requests sent to the remote service. One constructor per call site.
\<close>

datatype event =
    Job_status_line color string string string
  | Job_change_line color string string string
  | Play_request int
  | Enabled_line bool string
  | Retry_request int
  | Retried_line string
  | Cancel_request int
  | Cancel_line string
  | Empty_line
  | Tally_line int int
  | Separator_line
  | Wait_tick nat
  | Log_line string
  | Finished_line string

datatype error = KeyError string

definition REFRESH_WAIT_LOG :: nat where
  "REFRESH_WAIT_LOG = 10"

definition REFRESH_WAIT_JOBS :: nat where
  "REFRESH_WAIT_JOBS = 6"

definition STATUS_COLORS :: "(string \<times> color) list" where
  "STATUS_COLORS =
     [(''created'', No_color),
      (''running'', Fore_BLUE),
      (''success'', Fore_GREEN),
      (''failed'', Fore_RED),
      (''canceled'', Fore_MAGENTA),
      (''manual'', No_color),
      (''pending'', No_color),
      (''skipped'', No_color)]"

definition COMPLETED_STATUSES :: "string list" where
  "COMPLETED_STATUSES = [''success'', ''failed'']"

text \<open>
  Python's \<open>a in b\<close> on two strings: \<open>a\<close> occurs in \<open>b\<close> as a contiguous substring
  (the empty string occurs in every string).
\<close>

fun str_in :: "string \<Rightarrow> string \<Rightarrow> bool" where
  "str_in xs [] = (xs = [])"
| "str_in xs (y # ys) = (prefix xs (y # ys) \<or> str_in xs ys)"

text \<open>
  The state of \<open>monitor_pipeline\<close>: its local variables, and the trace of what it has
  printed and requested so far. A Python dict is an association list in insertion order;
  \<open>d[k] = v\<close> is \<open>AList.update k v d\<close> (an existing key keeps its place, a new key goes
  to the end).
\<close>

record mstate =
  statuses :: "(int \<times> string) list"
  target_statuses :: "(int \<times> string) list"
  stress_succ :: int
  stress_fail :: int
  to_cancel :: "job list"
  trace :: "event list"

text \<open>
  The arguments of \<open>monitor_pipeline\<close>. \<open>re_match pat s\<close> stands for the library call
  \<open>re.compile(pat.strip()).match(s)\<close> returning a match object.
\<close>

record params =
  re_match :: "string \<Rightarrow> string \<Rightarrow> bool"
  target_job :: "string option"
  dependencies :: "string set"
  force_manual :: bool
  stress :: bool

section \<open>The functions of the script\<close>

definition emit :: "event list \<Rightarrow> mstate \<Rightarrow> mstate" where
  "emit evs st = st\<lparr>trace := trace st @ evs\<rparr>"

text \<open>\<open>print_job_status\<close>, lines 52 to 65.\<close>

definition print_job_status :: "job \<Rightarrow> error + event list" where
  "print_job_status j =
     (if status j = ''canceled'' then Inr []
      else case map_of STATUS_COLORS (status j) of
             None \<Rightarrow> Inl (KeyError (status j))
           | Some c \<Rightarrow> Inr [Job_status_line c (web_url j) (name j) (status j)])"

text \<open>\<open>print_job_status_change\<close>, lines 68 to 81.\<close>

definition print_job_status_change :: "job \<Rightarrow> error + event list" where
  "print_job_status_change j =
     (if status j = ''canceled'' then Inr []
      else case map_of STATUS_COLORS (status j) of
             None \<Rightarrow> Inl (KeyError (status j))
           | Some c \<Rightarrow> Inr [Job_change_line c (web_url j) (name j) (status j)])"

text \<open>\<open>pretty_wait\<close>, lines 84 to 88: one line per remaining second, counting down.\<close>

definition pretty_wait :: "nat \<Rightarrow> event list" where
  "pretty_wait sec = map Wait_tick (rev [1..<Suc sec])"

text \<open>\<open>enable_job\<close>, \<open>retry_job\<close>, \<open>cancel_job\<close>, lines 178 to 201.\<close>

definition enable_job :: "job \<Rightarrow> bool \<Rightarrow> event list" where
  "enable_job j target = [Play_request (job_id j), Enabled_line target (name j)]"

definition retry_job :: "job \<Rightarrow> event list" where
  "retry_job j = [Retry_request (job_id j), Retried_line (name j)]"

definition cancel_job :: "job \<Rightarrow> event list" where
  "cancel_job j = [Cancel_request (job_id j), Cancel_line (name j)]"

text \<open>
  \<open>cancel_jobs\<close>, lines 204 to 212. The worker pool submits one \<open>cancel_job\<close> per element
  of the list and joins; the trace lists the calls in the order of submission.
\<close>

definition cancel_jobs :: "job list \<Rightarrow> event list" where
  "cancel_jobs tc = (if tc = [] then [] else concat (map cancel_job tc) @ [Empty_line])"

text \<open>Truthiness of \<open>target_job\<close>: neither \<open>None\<close> nor the empty string.\<close>

definition target_given :: "params \<Rightarrow> bool" where
  "target_given p = (case target_job p of None \<Rightarrow> False | Some t \<Rightarrow> t \<noteq> [])"

text \<open>Line 112: \<open>target_job and target_jobs_regex.match(job.name)\<close>.\<close>

definition is_target :: "params \<Rightarrow> job \<Rightarrow> bool" where
  "is_target p j =
     (case target_job p of None \<Rightarrow> False | Some t \<Rightarrow> t \<noteq> [] \<and> re_match p t (name j))"

text \<open>
  Lines 123 to 125 and line 134:
  \<open>(job.id not in history) or (job.status not in history[job.id])\<close>.
\<close>

definition status_changed :: "(int \<times> string) list \<Rightarrow> job \<Rightarrow> bool" where
  "status_changed history j =
     (case map_of history (job_id j) of
        None \<Rightarrow> True
      | Some old \<Rightarrow> \<not> str_in (status j) old)"

text \<open>Lines 143 to 148: the test that marks a job for cancellation.\<close>

definition cancel_wanted :: "params \<Rightarrow> job \<Rightarrow> bool" where
  "cancel_wanted p j =
     (target_given p \<and> status j \<notin> set [''canceled'', ''success'', ''failed'', ''skipped''])"

text \<open>The body of the \<open>for\<close> loop, lines 111 to 149, for one job.\<close>

definition loop_body :: "params \<Rightarrow> mstate \<Rightarrow> job \<Rightarrow> error + mstate" where
  "loop_body p st j =
     (if is_target p j then
        let st1 = (if force_manual p \<and> status j = ''manual''
                   then emit (enable_job j True) st else st);
            st2 = (if stress p \<and> status j \<in> set [''success'', ''failed'']
                   then emit (retry_job j)
                          (st1\<lparr>stress_succ :=
                                 (if status j = ''success'' then stress_succ st1 + 1
                                  else stress_succ st1),
                               stress_fail :=
                                 (if status j = ''failed'' then stress_fail st1 + 1
                                  else stress_fail st1)\<rparr>)
                   else st1)
        in if status_changed (target_statuses st2) j then
             (case print_job_status_change j of
                Inl e \<Rightarrow> Inl e
              | Inr evs \<Rightarrow>
                  Inr ((emit evs st2)
                        \<lparr>target_statuses :=
                           AList.update (job_id j) (status j) (target_statuses st2)\<rparr>))
           else
             (case print_job_status j of
                Inl e \<Rightarrow> Inl e
              | Inr evs \<Rightarrow> Inr (emit evs st2))
      else
        (case (if status_changed (statuses st) j then
                 (case print_job_status_change j of
                    Inl e \<Rightarrow> Inl e
                  | Inr evs \<Rightarrow>
                      Inr ((emit evs st)
                            \<lparr>statuses := AList.update (job_id j) (status j) (statuses st)\<rparr>))
               else Inr st) of
           Inl e \<Rightarrow> Inl e
         | Inr st1 \<Rightarrow>
             if name j \<in> dependencies p then
               (if status j = ''manual'' then Inr (emit (enable_job j False) st1)
                else Inr st1)
             else if cancel_wanted p j then Inr (st1\<lparr>to_cancel := to_cancel st1 @ [j]\<rparr>)
             else Inr st1))"

text \<open>The \<open>for\<close> loop of line 110 over one listing of the pipeline's jobs.\<close>

fun scan_jobs :: "params \<Rightarrow> mstate \<Rightarrow> job list \<Rightarrow> error + mstate" where
  "scan_jobs p st [] = Inr st"
| "scan_jobs p st (j # js) =
     (case loop_body p st j of Inl e \<Rightarrow> Inl e | Inr st' \<Rightarrow> scan_jobs p st' js)"

text \<open>
  Lines 164 to 173, the three returns at the end of an iteration: \<open>Some\<close> of the returned
  pair, or \<open>None\<close> when the loop goes on.
\<close>

definition evaluate :: "(int \<times> string) list \<Rightarrow> (int option \<times> int option) option" where
  "evaluate ts =
     (if length ts = 1 \<and> {''running''} \<inter> set (map snd ts) \<noteq> {} then
        Some (Some (fst (hd ts)), None)
      else if {''failed'', ''canceled''} \<inter> set (map snd ts) \<noteq> {} then
        Some (None, Some 1)
      else if set (map snd ts) \<subseteq> {''success'', ''manual''} then
        Some (None, Some 0)
      else None)"

text \<open>One iteration of the \<open>while True\<close> loop, lines 109 to 175.\<close>

definition iteration ::
  "params \<Rightarrow> mstate \<Rightarrow> job list \<Rightarrow> error + (mstate \<times> (int option \<times> int option) option)"
where
  "iteration p st jobs =
     (case scan_jobs p (st\<lparr>to_cancel := []\<rparr>) jobs of
        Inl e \<Rightarrow> Inl e
      | Inr st1 \<Rightarrow>
          let st2 = (if target_given p then emit (cancel_jobs (to_cancel st1)) st1 else st1)
          in if stress p then
               Inr (emit (Tally_line (stress_succ st2) (stress_fail st2)
                          # pretty_wait REFRESH_WAIT_JOBS) st2, None)
             else
               let st3 = emit [Separator_line] st2
               in (case evaluate (target_statuses st3) of
                     Some r \<Rightarrow> Inr (st3, Some r)
                   | None \<Rightarrow> Inr (emit (pretty_wait REFRESH_WAIT_JOBS) st3, None)))"

text \<open>
  How a run of \<open>monitor_pipeline\<close> stands after a finite number of polls: it has raised,
  it has returned a pair, or it is still in its loop. A run that raised ends the process
  with a traceback; its state and trace are not kept. The requests to the remote service
  are taken to succeed: the only exception of the function's own code is the
  \<open>KeyError\<close> of a status that \<open>STATUS_COLORS\<close> does not list.
\<close>

datatype outcome =
    Raised error
  | Returned "int option \<times> int option" mstate
  | Still_polling mstate

text \<open>
  The \<open>while True\<close> loop of line 108. The remote service is the list of the successive
  answers of \<open>pipeline.jobs.list\<close>, one per iteration.
\<close>

fun monitor_loop :: "params \<Rightarrow> mstate \<Rightarrow> job list list \<Rightarrow> outcome" where
  "monitor_loop p st [] = Still_polling st"
| "monitor_loop p st (jobs # polls) =
     (case iteration p st jobs of
        Inl e \<Rightarrow> Raised e
      | Inr (st', Some r) \<Rightarrow> Returned r st'
      | Inr (st', None) \<Rightarrow> monitor_loop p st' polls)"

definition initial_state :: mstate where
  "initial_state =
     \<lparr>statuses = [], target_statuses = [], stress_succ = 0, stress_fail = 0,
      to_cancel = [], trace = []\<rparr>"

definition monitor_pipeline :: "params \<Rightarrow> job list list \<Rightarrow> outcome" where
  "monitor_pipeline p polls = monitor_loop p initial_state polls"

text \<open>
  \<open>print_log\<close>, lines 215 to 230. Each poll of the job gives its snapshot and the lines of
  its whole log so far (\<open>job.trace().decode(...).splitlines()\<close>); the result is what was
  printed when the function returns, \<open>None\<close> when it has not returned within the polls.
\<close>

fun print_log_loop :: "nat \<Rightarrow> (job \<times> string list) list \<Rightarrow> event list option" where
  "print_log_loop printed_lines [] = None"
| "print_log_loop printed_lines ((j, lines) # polls) =
     (let out = map Log_line (drop printed_lines lines)
      in if status j \<in> set COMPLETED_STATUSES then Some (out @ [Finished_line (web_url j)])
         else map_option (\<lambda>rest. out @ pretty_wait REFRESH_WAIT_LOG @ rest)
                (print_log_loop (length lines) polls))"

definition print_log :: "(job \<times> string list) list \<Rightarrow> event list option" where
  "print_log polls = print_log_loop 0 polls"

text \<open>
  \<open>sys.exit(ret)\<close>: \<open>None\<close> is exit status 0, an integer is the exit status itself
  (\<open>monitor_pipeline\<close> returns no other integer than 0 and 1).
\<close>

definition sys_exit :: "int option \<Rightarrow> int" where
  "sys_exit ret = (case ret of None \<Rightarrow> 0 | Some n \<Rightarrow> n)"

text \<open>
  Lines 322 to 333: what the script does with the pair \<open>monitor_pipeline\<close> returned.
  The result is the exit status, \<open>None\<close> while the log streamer has not returned.
\<close>

definition after_monitor ::
  "int option \<times> int option \<Rightarrow> (job \<times> string list) list \<Rightarrow> int option" where
  "after_monitor r log_polls =
     (case r of (target_job_id, ret) \<Rightarrow>
        if target_job_id \<noteq> None \<and> target_job_id \<noteq> Some 0 then
          (case print_log log_polls of None \<Rightarrow> None | Some out \<Rightarrow> Some (sys_exit ret))
        else Some (sys_exit ret))"

section \<open>Concrete runs\<close>

text \<open>
  A caller that targets the jobs whose name starts with \<open>build\<close> (the pattern has no
  metacharacter, so matching at the start of the name is a prefix test), with one
  dependency.
\<close>

definition ex_params :: params where
  "ex_params =
     \<lparr>re_match = (\<lambda>pat s. prefix pat s), target_job = Some ''build'',
      dependencies = {''deps''}, force_manual = False, stress = False\<rparr>"

definition ex_job :: "int \<Rightarrow> string \<Rightarrow> string \<Rightarrow> job" where
  "ex_job i n s = \<lparr>job_id = i, name = n, web_url = ''https://ci/'' @ n, status = s\<rparr>"

text \<open>The ids of the cancel requests in a trace, in the order they were sent.\<close>

definition cancel_requests :: "event list \<Rightarrow> int list" where
  "cancel_requests tr =
     concat (map (\<lambda>e. case e of Cancel_request i \<Rightarrow> [i] | _ \<Rightarrow> []) tr)"

text \<open>The log lines printed in a trace, in order.\<close>

definition log_lines :: "event list \<Rightarrow> string list" where
  "log_lines tr = concat (map (\<lambda>e. case e of Log_line l \<Rightarrow> [l] | _ \<Rightarrow> []) tr)"

text \<open>
  The specification of the log streamer in its own words: of the successive fetches of the
  whole log, each contributes the lines beyond the count reached by the fetch before it.
\<close>

fun fresh_lines :: "nat \<Rightarrow> string list list \<Rightarrow> string list" where
  "fresh_lines printed [] = []"
| "fresh_lines printed (ls # lss) = drop printed ls @ fresh_lines (length ls) lss"

text \<open>Successive fetches of a log that only accumulates: each one extends the one before.\<close>

fun growing :: "string list list \<Rightarrow> bool" where
  "growing [] = True"
| "growing [ls] = True"
| "growing (ls # ls' # lss) = (prefix ls ls' \<and> growing (ls' # lss))"

section \<open>Statuses and colours\<close>

lemma enum_check:
  "list_all (\<lambda>s. list_all (\<lambda>old. str_in s old = (s = old)) (map fst STATUS_COLORS))
     (map fst STATUS_COLORS)"
  by code_simp

lemma enum_str_in:
  "s \<in> fst ` set STATUS_COLORS \<Longrightarrow> old \<in> fst ` set STATUS_COLORS \<Longrightarrow>
   str_in s old = (s = old)"
  using enum_check unfolding list_all_iff by auto

lemma known_color:
  "s \<in> fst ` set STATUS_COLORS \<Longrightarrow> \<exists>c. map_of STATUS_COLORS s = Some c"
  by (metis weak_map_of_SomeI map_of_eq_None_iff not_Some_eq)

lemma print_change_known:
  "status j \<in> fst ` set STATUS_COLORS \<Longrightarrow> \<exists>evs. print_job_status_change j = Inr evs"
  using known_color [of "status j"] by (auto simp: print_job_status_change_def)

lemma print_status_known:
  "status j \<in> fst ` set STATUS_COLORS \<Longrightarrow> \<exists>evs. print_job_status j = Inr evs"
  using known_color [of "status j"] by (auto simp: print_job_status_def)

section \<open>The scan of one job listing never raises on known statuses\<close>

lemma loop_body_known:
  assumes "status j \<in> fst ` set STATUS_COLORS"
  shows "\<exists>st'. loop_body p st j = Inr st'"
  using print_change_known [OF assms] print_status_known [OF assms]
  by (auto simp: loop_body_def Let_def)

lemma scan_jobs_known:
  "\<forall>j \<in> set jobs. status j \<in> fst ` set STATUS_COLORS \<Longrightarrow>
   \<exists>st'. scan_jobs p st jobs = Inr st'"
proof (induction jobs arbitrary: st)
  case Nil
  then show ?case by simp
next
  case (Cons j js)
  then obtain st1 where "loop_body p st j = Inr st1"
    using loop_body_known [of j p st] by auto
  with Cons show ?case by simp
qed

section \<open>The returns at the end of an iteration\<close>

lemma evaluate_handoff:
  assumes "length ts = 1" and "(jid, ''running'') \<in> set ts"
  shows "evaluate ts = Some (Some jid, None)"
proof -
  from assms(1) obtain x where ts: "ts = [x]"
    by (cases ts) auto
  with assms(2) have "x = (jid, ''running'')" by simp
  with ts show ?thesis by (simp add: evaluate_def)
qed

lemma evaluate_failure:
  assumes "\<not> (length ts = 1 \<and> ''running'' \<in> snd ` set ts)"
    and "''failed'' \<in> snd ` set ts \<or> ''canceled'' \<in> snd ` set ts"
  shows "evaluate ts = Some (None, Some 1)"
  using assms by (auto simp: evaluate_def)

lemma evaluate_success:
  assumes "\<not> (length ts = 1 \<and> ''running'' \<in> snd ` set ts)"
    and "\<not> (''failed'' \<in> snd ` set ts \<or> ''canceled'' \<in> snd ` set ts)"
    and "snd ` set ts \<subseteq> {''success'', ''manual''}"
  shows "evaluate ts = Some (None, Some 0)"
  using assms by (auto simp: evaluate_def)

lemma evaluate_all_success:
  assumes "\<forall>s \<in> snd ` set ts. s = ''success''"
  shows "evaluate ts = Some (None, Some 0)"
  using assms by (auto simp: evaluate_def)

lemma monitor_loop_returns:
  assumes "\<not> stress p"
    and "scan_jobs p (st\<lparr>to_cancel := []\<rparr>) jobs = Inr st1"
    and "evaluate (target_statuses st1) = Some r"
  shows "\<exists>st'. monitor_loop p st (jobs # polls) = Returned r st'"
  using assms by (simp add: iteration_def Let_def emit_def)

lemma loop_body_other_target_statuses:
  "\<not> is_target p j \<Longrightarrow> loop_body p st j = Inr st' \<Longrightarrow>
   target_statuses st' = target_statuses st"
  by (auto simp: loop_body_def emit_def split: if_splits sum.splits)

lemma scan_jobs_other_target_statuses:
  "\<forall>j \<in> set jobs. \<not> is_target p j \<Longrightarrow> scan_jobs p st jobs = Inr st' \<Longrightarrow>
   target_statuses st' = target_statuses st"
proof (induction jobs arbitrary: st)
  case Nil
  then show ?case by simp
next
  case (Cons j js)
  from Cons.prems(2) obtain st1 where b: "loop_body p st j = Inr st1"
    and s: "scan_jobs p st1 js = Inr st'"
    by (auto split: sum.splits)
  from Cons.prems(1) have "\<not> is_target p j" by simp
  then have "target_statuses st1 = target_statuses st"
    using b by (rule loop_body_other_target_statuses)
  moreover from Cons.IH [OF _ s] Cons.prems(1) have "target_statuses st' = target_statuses st1"
    by simp
  ultimately show ?case by simp
qed

lemma not_given_not_target: "\<not> target_given p \<Longrightarrow> \<not> is_target p j"
  by (auto simp: target_given_def is_target_def split: option.splits)

text \<open>
  Claim C1. Outside stress mode, when the scan of a job listing ends with a target history
  of exactly one entry and that entry is \<open>running\<close>, the first test of lines 164 to 167
  fires: \<open>monitor_pipeline\<close> returns that job's id with no exit code, whatever polls would
  have followed, and the failure and success tests are not reached.
\<close>

theorem single_running_target_hands_off:
  assumes "\<not> stress p"
    and "scan_jobs p (st\<lparr>to_cancel := []\<rparr>) jobs = Inr st1"
    and "length (target_statuses st1) = 1"
    and "(jid, ''running'') \<in> set (target_statuses st1)"
  shows "evaluate (target_statuses st1) = Some (Some jid, None) \<and>
         (\<exists>st'. monitor_loop p st (jobs # polls) = Returned (Some jid, None) st')"
  using evaluate_handoff [OF assms(3,4)] monitor_loop_returns [OF assms(1,2)] by simp

theorem single_running_target_hands_off_witness:
  "\<not> stress ex_params \<and>
   scan_jobs ex_params (initial_state\<lparr>to_cancel := []\<rparr>) [ex_job 7 ''build-a'' ''running''] =
     Inr \<lparr>statuses = [], target_statuses = [(7, ''running'')], stress_succ = 0,
          stress_fail = 0, to_cancel = [],
          trace = [Job_change_line Fore_BLUE ''https://ci/build-a'' ''build-a'' ''running'']\<rparr> \<and>
   evaluate [(7, ''running'')] = Some (Some 7, None) \<and>
   (\<exists>st'. monitor_loop ex_params initial_state [[ex_job 7 ''build-a'' ''running'']] =
      Returned (Some 7, None) st')"
proof -
  let ?st1 = "\<lparr>statuses = [], target_statuses = [(7, ''running'')], stress_succ = 0,
          stress_fail = 0, to_cancel = [],
          trace = [Job_change_line Fore_BLUE ''https://ci/build-a'' ''build-a'' ''running'']\<rparr>"
  have a: "\<not> stress ex_params" by (simp add: ex_params_def)
  have b: "scan_jobs ex_params (initial_state\<lparr>to_cancel := []\<rparr>)
             [ex_job 7 ''build-a'' ''running''] = Inr ?st1"
    by (simp add: ex_params_def ex_job_def initial_state_def loop_body_def is_target_def
        status_changed_def print_job_status_change_def STATUS_COLORS_def emit_def)
  have c: "length (target_statuses ?st1) = 1" by simp
  have d: "(7, ''running'') \<in> set (target_statuses ?st1)" by simp
  show ?thesis
    using single_running_target_hands_off [OF a b c d, of "[]"] a b by simp
qed

text \<open>
  Claim C2. Outside stress mode, when the hand-off test of line 164 does not hold and some
  recorded target status is \<open>failed\<close> or \<open>canceled\<close>, \<open>monitor_pipeline\<close> returns
  no job id and exit code 1 (lines 169 and 170); the other recorded statuses do not matter,
  so a history with one \<open>failed\<close> among \<open>success\<close> entries fails.
\<close>

theorem failure_before_success:
  assumes "\<not> stress p"
    and "scan_jobs p (st\<lparr>to_cancel := []\<rparr>) jobs = Inr st1"
    and "\<not> (length (target_statuses st1) = 1 \<and> ''running'' \<in> snd ` set (target_statuses st1))"
    and "''failed'' \<in> snd ` set (target_statuses st1) \<or>
         ''canceled'' \<in> snd ` set (target_statuses st1)"
  shows "evaluate (target_statuses st1) = Some (None, Some 1) \<and>
         (\<exists>st'. monitor_loop p st (jobs # polls) = Returned (None, Some 1) st')"
  using evaluate_failure [OF assms(3,4)] monitor_loop_returns [OF assms(1,2)] by simp

theorem failure_before_success_witness:
  "\<not> stress ex_params \<and>
   scan_jobs ex_params (initial_state\<lparr>to_cancel := []\<rparr>)
     [ex_job 1 ''build-a'' ''success'', ex_job 2 ''build-b'' ''failed'',
      ex_job 3 ''build-c'' ''success''] =
     Inr \<lparr>statuses = [],
          target_statuses = [(1, ''success''), (2, ''failed''), (3, ''success'')],
          stress_succ = 0, stress_fail = 0, to_cancel = [],
          trace = [Job_change_line Fore_GREEN ''https://ci/build-a'' ''build-a'' ''success'',
                   Job_change_line Fore_RED ''https://ci/build-b'' ''build-b'' ''failed'',
                   Job_change_line Fore_GREEN ''https://ci/build-c'' ''build-c'' ''success'']\<rparr> \<and>
   evaluate [(1, ''success''), (2, ''failed''), (3, ''success'')] = Some (None, Some 1) \<and>
   (\<exists>st'. monitor_loop ex_params initial_state
      [[ex_job 1 ''build-a'' ''success'', ex_job 2 ''build-b'' ''failed'',
        ex_job 3 ''build-c'' ''success'']] = Returned (None, Some 1) st')"
proof -
  let ?st1 = "\<lparr>statuses = [],
          target_statuses = [(1, ''success''), (2, ''failed''), (3, ''success'')],
          stress_succ = 0, stress_fail = 0, to_cancel = [],
          trace = [Job_change_line Fore_GREEN ''https://ci/build-a'' ''build-a'' ''success'',
                   Job_change_line Fore_RED ''https://ci/build-b'' ''build-b'' ''failed'',
                   Job_change_line Fore_GREEN ''https://ci/build-c'' ''build-c'' ''success'']\<rparr>"
  have a: "\<not> stress ex_params" by (simp add: ex_params_def)
  have b: "scan_jobs ex_params (initial_state\<lparr>to_cancel := []\<rparr>)
             [ex_job 1 ''build-a'' ''success'', ex_job 2 ''build-b'' ''failed'',
              ex_job 3 ''build-c'' ''success''] = Inr ?st1"
    by (simp add: ex_params_def ex_job_def initial_state_def loop_body_def is_target_def
        status_changed_def print_job_status_change_def STATUS_COLORS_def emit_def)
  have c: "\<not> (length (target_statuses ?st1) = 1 \<and>
              ''running'' \<in> snd ` set (target_statuses ?st1))" by simp
  have d: "''failed'' \<in> snd ` set (target_statuses ?st1) \<or>
           ''canceled'' \<in> snd ` set (target_statuses ?st1)" by simp
  show ?thesis
    using failure_before_success [OF a b c d, of "[]"] a b by simp
qed

text \<open>
  Claim C3. Outside stress mode, when neither the hand-off test nor the failure test holds
  and every recorded target status is \<open>success\<close> or \<open>manual\<close>, \<open>monitor_pipeline\<close>
  returns no job id and exit code 0 (lines 172 and 173). In particular a target history
  whose entries are all \<open>success\<close> gives that result.
\<close>

theorem success_when_all_success_or_manual:
  assumes "\<not> stress p"
    and "scan_jobs p (st\<lparr>to_cancel := []\<rparr>) jobs = Inr st1"
  shows "(\<not> (length (target_statuses st1) = 1 \<and>
             ''running'' \<in> snd ` set (target_statuses st1)) \<and>
          \<not> (''failed'' \<in> snd ` set (target_statuses st1) \<or>
             ''canceled'' \<in> snd ` set (target_statuses st1)) \<and>
          snd ` set (target_statuses st1) \<subseteq> {''success'', ''manual''}
          \<longrightarrow> evaluate (target_statuses st1) = Some (None, Some 0) \<and>
              (\<exists>st'. monitor_loop p st (jobs # polls) = Returned (None, Some 0) st')) \<and>
         ((\<forall>s \<in> snd ` set (target_statuses st1). s = ''success'')
          \<longrightarrow> evaluate (target_statuses st1) = Some (None, Some 0) \<and>
              (\<exists>st'. monitor_loop p st (jobs # polls) = Returned (None, Some 0) st'))"
  using evaluate_success [of "target_statuses st1"]
    evaluate_all_success [of "target_statuses st1"]
    monitor_loop_returns [OF assms, of "(None, Some 0)" polls]
  by blast

theorem success_when_all_success_or_manual_witness:
  "\<not> stress ex_params \<and>
   scan_jobs ex_params (initial_state\<lparr>to_cancel := []\<rparr>)
     [ex_job 1 ''build-a'' ''success'', ex_job 2 ''build-b'' ''success''] =
     Inr \<lparr>statuses = [], target_statuses = [(1, ''success''), (2, ''success'')],
          stress_succ = 0, stress_fail = 0, to_cancel = [],
          trace = [Job_change_line Fore_GREEN ''https://ci/build-a'' ''build-a'' ''success'',
                   Job_change_line Fore_GREEN ''https://ci/build-b'' ''build-b'' ''success'']\<rparr> \<and>
   evaluate [(1, ''success''), (2, ''success'')] = Some (None, Some 0) \<and>
   (\<exists>st'. monitor_loop ex_params initial_state
      [[ex_job 1 ''build-a'' ''success'', ex_job 2 ''build-b'' ''success'']] =
      Returned (None, Some 0) st')"
proof -
  let ?st1 = "\<lparr>statuses = [], target_statuses = [(1, ''success''), (2, ''success'')],
          stress_succ = 0, stress_fail = 0, to_cancel = [],
          trace = [Job_change_line Fore_GREEN ''https://ci/build-a'' ''build-a'' ''success'',
                   Job_change_line Fore_GREEN ''https://ci/build-b'' ''build-b'' ''success'']\<rparr>"
  have a: "\<not> stress ex_params" by (simp add: ex_params_def)
  have b: "scan_jobs ex_params (initial_state\<lparr>to_cancel := []\<rparr>)
             [ex_job 1 ''build-a'' ''success'', ex_job 2 ''build-b'' ''success''] = Inr ?st1"
    by (simp add: ex_params_def ex_job_def initial_state_def loop_body_def is_target_def
        status_changed_def print_job_status_change_def STATUS_COLORS_def emit_def)
  show ?thesis
    using success_when_all_success_or_manual [OF a b, of "[]"] a b by simp
qed

text \<open>
  Claim C10. Outside stress mode, when the scan of a job listing ends with an empty target
  history, \<open>monitor_pipeline\<close> returns no job id and exit code 0 at that iteration. In
  particular this is the result of the very first iteration, whatever polls would have
  followed, when no target pattern was given or no job of the first listing matches it
  (and the statuses of that listing are among the keys of \<open>STATUS_COLORS\<close>, so that no
  status line raises).
\<close>

theorem empty_target_history_returns_success:
  assumes "\<not> stress p"
  shows "(scan_jobs p (st\<lparr>to_cancel := []\<rparr>) jobs = Inr st1 \<and> target_statuses st1 = []
          \<longrightarrow> (\<exists>st'. monitor_loop p st (jobs # polls) = Returned (None, Some 0) st')) \<and>
         ((\<not> target_given p \<or> (\<forall>j \<in> set jobs. \<not> is_target p j)) \<and>
          (\<forall>j \<in> set jobs. status j \<in> fst ` set STATUS_COLORS)
          \<longrightarrow> (\<exists>st'. monitor_pipeline p (jobs # polls) = Returned (None, Some 0) st'))"
proof (intro conjI impI)
  assume h: "scan_jobs p (st\<lparr>to_cancel := []\<rparr>) jobs = Inr st1 \<and> target_statuses st1 = []"
  then have "evaluate (target_statuses st1) = Some (None, Some 0)"
    by (simp add: evaluate_def)
  with h show "\<exists>st'. monitor_loop p st (jobs # polls) = Returned (None, Some 0) st'"
    using monitor_loop_returns [OF assms] by blast
next
  assume h: "(\<not> target_given p \<or> (\<forall>j \<in> set jobs. \<not> is_target p j)) \<and>
             (\<forall>j \<in> set jobs. status j \<in> fst ` set STATUS_COLORS)"
  then have nt: "\<forall>j \<in> set jobs. \<not> is_target p j"
    using not_given_not_target by blast
  from h obtain st1 where s: "scan_jobs p (initial_state\<lparr>to_cancel := []\<rparr>) jobs = Inr st1"
    using scan_jobs_known by blast
  from scan_jobs_other_target_statuses [OF nt s] have "target_statuses st1 = []"
    by (simp add: initial_state_def)
  then have "evaluate (target_statuses st1) = Some (None, Some 0)"
    by (simp add: evaluate_def)
  then show "\<exists>st'. monitor_pipeline p (jobs # polls) = Returned (None, Some 0) st'"
    unfolding monitor_pipeline_def using monitor_loop_returns [OF assms s] by blast
qed

theorem empty_target_history_returns_success_witness:
  "\<not> stress (ex_params\<lparr>target_job := None\<rparr>) \<and>
   \<not> target_given (ex_params\<lparr>target_job := None\<rparr>) \<and>
   status (ex_job 1 ''build-a'' ''running'') \<in> fst ` set STATUS_COLORS \<and>
   scan_jobs (ex_params\<lparr>target_job := None\<rparr>) (initial_state\<lparr>to_cancel := []\<rparr>)
     [ex_job 1 ''build-a'' ''running''] =
     Inr \<lparr>statuses = [(1, ''running'')], target_statuses = [], stress_succ = 0,
          stress_fail = 0, to_cancel = [],
          trace = [Job_change_line Fore_BLUE ''https://ci/build-a'' ''build-a'' ''running'']\<rparr> \<and>
   (\<exists>st'. monitor_loop (ex_params\<lparr>target_job := None\<rparr>) initial_state
      [[ex_job 1 ''build-a'' ''running''], [ex_job 1 ''build-a'' ''success'']] =
      Returned (None, Some 0) st') \<and>
   (\<exists>st'. monitor_pipeline (ex_params\<lparr>target_job := None\<rparr>)
      [[ex_job 1 ''build-a'' ''running''], [ex_job 1 ''build-a'' ''success'']] =
      Returned (None, Some 0) st')"
proof -
  let ?p = "ex_params\<lparr>target_job := None\<rparr>"
  let ?st1 = "\<lparr>statuses = [(1, ''running'')], target_statuses = [], stress_succ = 0,
          stress_fail = 0, to_cancel = [],
          trace = [Job_change_line Fore_BLUE ''https://ci/build-a'' ''build-a'' ''running'']\<rparr>"
  have a: "\<not> stress ?p" by (simp add: ex_params_def)
  have b: "\<not> target_given ?p"
    by (simp add: target_given_def)
  have c: "\<forall>j \<in> set [ex_job 1 ''build-a'' ''running'']. status j \<in> fst ` set STATUS_COLORS"
    by (simp add: ex_job_def STATUS_COLORS_def)
  have c': "status (ex_job 1 ''build-a'' ''running'') \<in> fst ` set STATUS_COLORS"
    by (simp add: ex_job_def STATUS_COLORS_def)
  have d: "scan_jobs ?p (initial_state\<lparr>to_cancel := []\<rparr>) [ex_job 1 ''build-a'' ''running'']
             = Inr ?st1"
    by (simp add: ex_params_def ex_job_def initial_state_def loop_body_def is_target_def
        status_changed_def print_job_status_change_def STATUS_COLORS_def emit_def
        cancel_wanted_def target_given_def)
  have e: "target_statuses ?st1 = []" by simp
  show ?thesis
    using empty_target_history_returns_success [OF a,
        of initial_state "[ex_job 1 ''build-a'' ''running'']" ?st1
           "[[ex_job 1 ''build-a'' ''success'']]"] a b c c' d e
    by blast
qed

section \<open>Cancellation\<close>

lemma cancel_requests_append [simp]:
  "cancel_requests (xs @ ys) = cancel_requests xs @ cancel_requests ys"
  by (simp add: cancel_requests_def)

lemma cancel_requests_pretty_wait [simp]: "cancel_requests (pretty_wait n) = []"
  by (simp add: cancel_requests_def pretty_wait_def)

lemma cancel_requests_Nil [simp]: "cancel_requests [] = []"
  by (simp add: cancel_requests_def)

lemma cancel_requests_Cons:
  "cancel_requests (e # es) =
     (case e of Cancel_request i \<Rightarrow> [i] | _ \<Rightarrow> []) @ cancel_requests es"
  by (simp add: cancel_requests_def)

lemma cancel_requests_cancel_job:
  "cancel_requests (concat (map cancel_job tc)) = map job_id tc"
  by (induction tc) (simp_all add: cancel_job_def cancel_requests_Cons)

lemma cancel_requests_cancel_jobs [simp]:
  "cancel_requests (cancel_jobs tc) = map job_id tc"
  by (simp add: cancel_jobs_def cancel_requests_cancel_job cancel_requests_Cons)

lemma cancel_requests_print_change:
  "print_job_status_change j = Inr evs \<Longrightarrow> cancel_requests evs = []"
  by (auto simp: print_job_status_change_def cancel_requests_def
      split: if_splits option.splits)

lemma cancel_requests_print_status:
  "print_job_status j = Inr evs \<Longrightarrow> cancel_requests evs = []"
  by (auto simp: print_job_status_def cancel_requests_def split: if_splits option.splits)

lemma cancel_requests_enable [simp]: "cancel_requests (enable_job j t) = []"
  by (simp add: cancel_requests_def enable_job_def)

lemma cancel_requests_retry [simp]: "cancel_requests (retry_job j) = []"
  by (simp add: cancel_requests_def retry_job_def)

lemma loop_body_cancel_requests:
  assumes "loop_body p st j = Inr st'"
  shows "cancel_requests (trace st') = cancel_requests (trace st)"
  using assms
  by (auto simp: loop_body_def Let_def emit_def cancel_requests_print_change
      cancel_requests_print_status split: if_splits sum.splits)

lemma loop_body_to_cancel:
  assumes "loop_body p st j = Inr st'"
  shows "to_cancel st' =
         to_cancel st @
           (if \<not> is_target p j \<and> name j \<notin> dependencies p \<and> cancel_wanted p j
            then [j] else [])"
  using assms
  by (auto simp: loop_body_def Let_def emit_def split: if_splits sum.splits)

lemma scan_jobs_cancel:
  "scan_jobs p st jobs = Inr st' \<Longrightarrow>
   cancel_requests (trace st') = cancel_requests (trace st) \<and>
   to_cancel st' =
     to_cancel st @
       filter (\<lambda>j. \<not> is_target p j \<and> name j \<notin> dependencies p \<and> cancel_wanted p j) jobs"
proof (induction jobs arbitrary: st)
  case Nil
  then show ?case by simp
next
  case (Cons j js)
  from Cons.prems obtain st1 where b: "loop_body p st j = Inr st1"
    and s: "scan_jobs p st1 js = Inr st'"
    by (auto split: sum.splits)
  from loop_body_cancel_requests [OF b] loop_body_to_cancel [OF b] Cons.IH [OF s]
  show ?case by simp
qed

lemma iteration_cancel_requests:
  assumes "scan_jobs p (st\<lparr>to_cancel := []\<rparr>) jobs = Inr st1"
  shows "\<exists>st' r. iteration p st jobs = Inr (st', r) \<and>
           cancel_requests (trace st') =
             cancel_requests (trace st1) @
               (if target_given p then map job_id (to_cancel st1) else [])"
  using assms
  by (auto simp: iteration_def Let_def emit_def cancel_requests_Cons split: option.splits)

text \<open>
  Claim C4. In an iteration with a target pattern given, whose scan of the job listing
  completes, the jobs marked for cancellation are exactly the polled jobs that do not
  match the pattern, are not named in the dependency set and have a status outside
  \<open>canceled\<close>, \<open>success\<close>, \<open>failed\<close>, \<open>skipped\<close>; the cancel requests the iteration
  sends are the ids of the marked jobs, one request per marked entry of the listing (so
  one per job when the listing names each job once); no job matching the pattern is
  marked.
\<close>

theorem cancel_exactly_the_unwanted:
  assumes "target_given p"
    and "scan_jobs p (st\<lparr>to_cancel := []\<rparr>) jobs = Inr st1"
  shows "to_cancel st1 =
           filter (\<lambda>j. \<not> is_target p j \<and> name j \<notin> dependencies p \<and>
                        status j \<notin> {''canceled'', ''success'', ''failed'', ''skipped''}) jobs \<and>
         (\<exists>st' r. iteration p st jobs = Inr (st', r) \<and>
            cancel_requests (trace st') =
              cancel_requests (trace st) @ map job_id (to_cancel st1)) \<and>
         (distinct (map job_id jobs) \<longrightarrow> distinct (map job_id (to_cancel st1))) \<and>
         (\<forall>j \<in> set (to_cancel st1). \<not> is_target p j)"
proof -
  have f: "(\<lambda>j. \<not> is_target p j \<and> name j \<notin> dependencies p \<and> cancel_wanted p j) =
           (\<lambda>j. \<not> is_target p j \<and> name j \<notin> dependencies p \<and>
                 status j \<notin> {''canceled'', ''success'', ''failed'', ''skipped''})"
    using assms(1) by (auto simp: cancel_wanted_def)
  from scan_jobs_cancel [OF assms(2)] f
  have tc: "to_cancel st1 =
           filter (\<lambda>j. \<not> is_target p j \<and> name j \<notin> dependencies p \<and>
                        status j \<notin> {''canceled'', ''success'', ''failed'', ''skipped''}) jobs"
    and cr: "cancel_requests (trace st1) = cancel_requests (trace st)"
    by simp_all
  from iteration_cancel_requests [OF assms(2)] assms(1) cr
  have it: "\<exists>st' r. iteration p st jobs = Inr (st', r) \<and>
            cancel_requests (trace st') =
              cancel_requests (trace st) @ map job_id (to_cancel st1)"
    by simp
  have d: "distinct (map job_id jobs) \<longrightarrow> distinct (map job_id (to_cancel st1))"
    unfolding tc by (simp add: distinct_map_filter)
  have nt: "\<forall>j \<in> set (to_cancel st1). \<not> is_target p j"
    unfolding tc by simp
  from tc it d nt show ?thesis by blast
qed

theorem cancel_exactly_the_unwanted_witness:
  "target_given ex_params \<and>
   scan_jobs ex_params (initial_state\<lparr>to_cancel := []\<rparr>)
     [ex_job 1 ''build-a'' ''pending'', ex_job 2 ''deps'' ''manual'',
      ex_job 3 ''lint'' ''running'', ex_job 4 ''docs'' ''success''] =
     Inr \<lparr>statuses = [(2, ''manual''), (3, ''running''), (4, ''success'')],
          target_statuses = [(1, ''pending'')], stress_succ = 0, stress_fail = 0,
          to_cancel = [ex_job 3 ''lint'' ''running''],
          trace = [Job_change_line No_color ''https://ci/build-a'' ''build-a'' ''pending'',
                   Job_change_line No_color ''https://ci/deps'' ''deps'' ''manual'',
                   Play_request 2, Enabled_line False ''deps'',
                   Job_change_line Fore_BLUE ''https://ci/lint'' ''lint'' ''running'',
                   Job_change_line Fore_GREEN ''https://ci/docs'' ''docs'' ''success'']\<rparr> \<and>
   (\<exists>st' r. iteration ex_params initial_state
       [ex_job 1 ''build-a'' ''pending'', ex_job 2 ''deps'' ''manual'',
        ex_job 3 ''lint'' ''running'', ex_job 4 ''docs'' ''success''] = Inr (st', r) \<and>
      cancel_requests (trace st') = [3])"
proof -
  let ?jobs = "[ex_job 1 ''build-a'' ''pending'', ex_job 2 ''deps'' ''manual'',
      ex_job 3 ''lint'' ''running'', ex_job 4 ''docs'' ''success'']"
  let ?st1 = "\<lparr>statuses = [(2, ''manual''), (3, ''running''), (4, ''success'')],
          target_statuses = [(1, ''pending'')], stress_succ = 0, stress_fail = 0,
          to_cancel = [ex_job 3 ''lint'' ''running''],
          trace = [Job_change_line No_color ''https://ci/build-a'' ''build-a'' ''pending'',
                   Job_change_line No_color ''https://ci/deps'' ''deps'' ''manual'',
                   Play_request 2, Enabled_line False ''deps'',
                   Job_change_line Fore_BLUE ''https://ci/lint'' ''lint'' ''running'',
                   Job_change_line Fore_GREEN ''https://ci/docs'' ''docs'' ''success'']\<rparr>"
  have a: "target_given ex_params" by (simp add: target_given_def ex_params_def)
  have b: "scan_jobs ex_params (initial_state\<lparr>to_cancel := []\<rparr>) ?jobs = Inr ?st1"
    by (simp add: ex_params_def ex_job_def initial_state_def loop_body_def is_target_def
        status_changed_def print_job_status_change_def STATUS_COLORS_def emit_def
        cancel_wanted_def target_given_def enable_job_def)
  have c: "cancel_requests (trace initial_state) = []"
    by (simp add: initial_state_def cancel_requests_def)
  show ?thesis
    using cancel_exactly_the_unwanted [OF a b] a b c by (simp add: ex_job_def)
qed

section \<open>Status tracking\<close>

lemma status_changed_known:
  assumes "status j \<in> fst ` set STATUS_COLORS"
    and "snd ` set history \<subseteq> fst ` set STATUS_COLORS"
  shows "status_changed history j = (map_of history (job_id j) \<noteq> Some (status j))"
proof (cases "map_of history (job_id j)")
  case None
  then show ?thesis by (simp add: status_changed_def)
next
  case (Some old)
  then have "(job_id j, old) \<in> set history" by (rule map_of_SomeD)
  then have "old \<in> snd ` set history" by force
  with assms(2) have "old \<in> fst ` set STATUS_COLORS" by blast
  from enum_str_in [OF assms(1) this] Some show ?thesis
    by (auto simp: status_changed_def)
qed

lemma loop_body_target_history:
  assumes "is_target p j" and "loop_body p st j = Inr st'"
  shows "target_statuses st' =
           (if status_changed (target_statuses st) j
            then AList.update (job_id j) (status j) (target_statuses st)
            else target_statuses st) \<and>
         statuses st' = statuses st"
  using assms
  by (auto simp: loop_body_def Let_def emit_def split: if_splits sum.splits)

lemma loop_body_other_history:
  assumes "\<not> is_target p j" and "loop_body p st j = Inr st'"
  shows "statuses st' =
           (if status_changed (statuses st) j
            then AList.update (job_id j) (status j) (statuses st)
            else statuses st) \<and>
         target_statuses st' = target_statuses st"
  using assms
  by (auto simp: loop_body_def Let_def emit_def split: if_splits sum.splits)

text \<open>
  Claim C5. For a new status and stored statuses among the eight keys of
  \<open>STATUS_COLORS\<close>, the substring test of lines 123 to 125 and 134 reports a change
  exactly when the job id is absent from the history or the stored status differs from
  the new one; the body of the loop then writes the new status under the job id, in the
  target history for a target job and in the general history otherwise, and leaves the
  histories as they are when no change is reported.
\<close>

theorem tracker_reports_change_iff_differs:
  assumes "status j \<in> fst ` set STATUS_COLORS"
    and "snd ` set (target_statuses st) \<subseteq> fst ` set STATUS_COLORS"
    and "snd ` set (statuses st) \<subseteq> fst ` set STATUS_COLORS"
  shows "(status_changed (target_statuses st) j \<longleftrightarrow>
            map_of (target_statuses st) (job_id j) = None \<or>
            (\<exists>old. map_of (target_statuses st) (job_id j) = Some old \<and> old \<noteq> status j)) \<and>
         (status_changed (statuses st) j \<longleftrightarrow>
            map_of (statuses st) (job_id j) = None \<or>
            (\<exists>old. map_of (statuses st) (job_id j) = Some old \<and> old \<noteq> status j)) \<and>
         (\<exists>st'. loop_body p st j = Inr st' \<and>
            (is_target p j \<longrightarrow>
               statuses st' = statuses st \<and>
               target_statuses st' =
                 (if map_of (target_statuses st) (job_id j) \<noteq> Some (status j)
                  then AList.update (job_id j) (status j) (target_statuses st)
                  else target_statuses st)) \<and>
            (\<not> is_target p j \<longrightarrow>
               target_statuses st' = target_statuses st \<and>
               statuses st' =
                 (if map_of (statuses st) (job_id j) \<noteq> Some (status j)
                  then AList.update (job_id j) (status j) (statuses st)
                  else statuses st)))"
proof -
  note t = status_changed_known [OF assms(1,2)]
  note g = status_changed_known [OF assms(1,3)]
  have a: "status_changed (target_statuses st) j \<longleftrightarrow>
            map_of (target_statuses st) (job_id j) = None \<or>
            (\<exists>old. map_of (target_statuses st) (job_id j) = Some old \<and> old \<noteq> status j)"
    unfolding t by (cases "map_of (target_statuses st) (job_id j)") auto
  have b: "status_changed (statuses st) j \<longleftrightarrow>
            map_of (statuses st) (job_id j) = None \<or>
            (\<exists>old. map_of (statuses st) (job_id j) = Some old \<and> old \<noteq> status j)"
    unfolding g by (cases "map_of (statuses st) (job_id j)") auto
  obtain st' where l: "loop_body p st j = Inr st'"
    using loop_body_known [OF assms(1)] by blast
  have c: "is_target p j \<longrightarrow>
               statuses st' = statuses st \<and>
               target_statuses st' =
                 (if map_of (target_statuses st) (job_id j) \<noteq> Some (status j)
                  then AList.update (job_id j) (status j) (target_statuses st)
                  else target_statuses st)"
    using loop_body_target_history [OF _ l] t by simp
  have d: "\<not> is_target p j \<longrightarrow>
               target_statuses st' = target_statuses st \<and>
               statuses st' =
                 (if map_of (statuses st) (job_id j) \<noteq> Some (status j)
                  then AList.update (job_id j) (status j) (statuses st)
                  else statuses st)"
    using loop_body_other_history [OF _ l] g by simp
  from a b c d l show ?thesis by blast
qed

theorem tracker_reports_change_iff_differs_witness:
  "status (ex_job 1 ''build-a'' ''success'') \<in> fst ` set STATUS_COLORS \<and>
   status_changed [(1, ''running'')] (ex_job 1 ''build-a'' ''success'') \<and>
   \<not> status_changed [(1, ''success'')] (ex_job 1 ''build-a'' ''success'') \<and>
   (\<exists>st'. loop_body ex_params
             \<lparr>statuses = [], target_statuses = [(1, ''running'')], stress_succ = 0,
              stress_fail = 0, to_cancel = [], trace = []\<rparr>
             (ex_job 1 ''build-a'' ''success'') = Inr st' \<and>
      statuses st' = [] \<and> target_statuses st' = [(1, ''success'')])"
proof -
  let ?j = "ex_job 1 ''build-a'' ''success''"
  let ?st = "\<lparr>statuses = [], target_statuses = [(1, ''running'')], stress_succ = 0,
              stress_fail = 0, to_cancel = [], trace = []\<rparr>"
  have a: "status ?j \<in> fst ` set STATUS_COLORS"
    by (simp add: ex_job_def STATUS_COLORS_def)
  have b: "snd ` set (target_statuses ?st) \<subseteq> fst ` set STATUS_COLORS"
    by (simp add: STATUS_COLORS_def)
  have c: "snd ` set (statuses ?st) \<subseteq> fst ` set STATUS_COLORS"
    by simp
  have d: "is_target ex_params ?j"
    by (simp add: is_target_def ex_params_def ex_job_def)
  have e: "\<not> status_changed [(1, ''success'')] ?j"
    by (simp add: status_changed_def ex_job_def)
  have f: "job_id ?j = 1" "status ?j = ''success''"
    by (simp_all add: ex_job_def)
  from tracker_reports_change_iff_differs [OF a b c, of ex_params] a d e f
  show ?thesis by auto
qed

section \<open>Polling a job whose status is the stored one\<close>

lemma str_in_refl: "str_in xs xs"
  by (cases xs) simp_all

lemma stored_status_not_changed:
  "map_of history (job_id j) = Some (status j) \<Longrightarrow> \<not> status_changed history j"
  by (simp add: status_changed_def str_in_refl)

lemma loop_body_target_unchanged:
  assumes "is_target p j"
    and "map_of (target_statuses st) (job_id j) = Some (status j)"
    and "map_of STATUS_COLORS (status j) = Some c"
  shows "loop_body p st j =
         Inr (st\<lparr>stress_succ :=
                   (if stress p \<and> status j = ''success'' then stress_succ st + 1
                    else stress_succ st),
                 stress_fail :=
                   (if stress p \<and> status j = ''failed'' then stress_fail st + 1
                    else stress_fail st),
                 trace :=
                   trace st @
                   (if force_manual p \<and> status j = ''manual'' then enable_job j True else []) @
                   (if stress p \<and> status j \<in> {''success'', ''failed''}
                    then retry_job j else []) @
                   (if status j = ''canceled'' then []
                    else [Job_status_line c (web_url j) (name j) (status j)])\<rparr>)"
  using assms stored_status_not_changed [OF assms(2)]
  by (auto simp: loop_body_def Let_def emit_def print_job_status_def)

lemma loop_body_other_unchanged:
  assumes "\<not> is_target p j"
    and "map_of (statuses st) (job_id j) = Some (status j)"
  shows "loop_body p st j =
         Inr (st\<lparr>to_cancel :=
                   to_cancel st @
                   (if name j \<notin> dependencies p \<and> cancel_wanted p j then [j] else []),
                 trace :=
                   trace st @
                   (if name j \<in> dependencies p \<and> status j = ''manual''
                    then enable_job j False else [])\<rparr>)"
  using assms stored_status_not_changed [OF assms(2)]
  by (auto simp: loop_body_def Let_def emit_def)

lemma pretty_wait_jobs:
  "pretty_wait REFRESH_WAIT_JOBS =
     [Wait_tick 6, Wait_tick 5, Wait_tick 4, Wait_tick 3, Wait_tick 2, Wait_tick 1]"
  by code_simp

text \<open>
  Claim C6, as the code has it. The claim as stated fails: a job that does not match the
  target pattern and is polled again with its stored status prints no status line at all
  (lines 134 to 136 have no \<open>else\<close>), and \<open>print_job_status\<close> prints nothing for a
  \<open>canceled\<close> job. In the run below the second poll prints the unchanged line of the
  target job \<open>build-a\<close> and nothing for the dependency \<open>deps\<close>; the second fact is a
  target job stored and polled as \<open>canceled\<close>, which leaves state and trace untouched.
\<close>

theorem repolled_unchanged_counterexample:
  "monitor_pipeline ex_params
     [[ex_job 1 ''build-a'' ''pending'', ex_job 2 ''deps'' ''running''],
      [ex_job 1 ''build-a'' ''pending'', ex_job 2 ''deps'' ''running'']] =
   Still_polling
     \<lparr>statuses = [(2, ''running'')], target_statuses = [(1, ''pending'')],
      stress_succ = 0, stress_fail = 0, to_cancel = [],
      trace =
        [Job_change_line No_color ''https://ci/build-a'' ''build-a'' ''pending'',
         Job_change_line Fore_BLUE ''https://ci/deps'' ''deps'' ''running'',
         Separator_line, Wait_tick 6, Wait_tick 5, Wait_tick 4, Wait_tick 3,
         Wait_tick 2, Wait_tick 1,
         Job_status_line No_color ''https://ci/build-a'' ''build-a'' ''pending'',
         Separator_line, Wait_tick 6, Wait_tick 5, Wait_tick 4, Wait_tick 3,
         Wait_tick 2, Wait_tick 1]\<rparr> \<and>
   loop_body ex_params
     \<lparr>statuses = [], target_statuses = [(1, ''canceled'')], stress_succ = 0,
      stress_fail = 0, to_cancel = [], trace = []\<rparr>
     (ex_job 1 ''build-a'' ''canceled'') =
   Inr \<lparr>statuses = [], target_statuses = [(1, ''canceled'')], stress_succ = 0,
        stress_fail = 0, to_cancel = [], trace = []\<rparr>"
  by (simp add: monitor_pipeline_def initial_state_def iteration_def ex_params_def
      ex_job_def loop_body_def is_target_def status_changed_def target_given_def
      print_job_status_change_def print_job_status_def STATUS_COLORS_def emit_def
      cancel_jobs_def evaluate_def pretty_wait_jobs Let_def)

text \<open>
  Claim C6, amended. A target job polled with the status stored for it in the target
  history (a key of \<open>STATUS_COLORS\<close>) raises nothing, leaves both histories as they are
  (the unchanged branch has no write), never prints the changed line, and prints the
  unchanged line of \<open>print_job_status\<close> unless the status is \<open>canceled\<close>, for which
  nothing is printed; before that line come the enable request under force-manual and the
  retry request under stress mode. A job that is not a target, polled with the status
  stored for it in the general history, raises nothing, leaves both histories as they are
  and prints no status line; only the enable request of a manual dependency is traced.
\<close>

theorem repolled_unchanged_status:
  "(is_target p j \<and> map_of (target_statuses st) (job_id j) = Some (status j) \<and>
    map_of STATUS_COLORS (status j) = Some c
    \<longrightarrow> (\<exists>st'. loop_body p st j = Inr st' \<and>
           target_statuses st' = target_statuses st \<and> statuses st' = statuses st \<and>
           trace st' =
             trace st @
             (if force_manual p \<and> status j = ''manual'' then enable_job j True else []) @
             (if stress p \<and> status j \<in> {''success'', ''failed''} then retry_job j else []) @
             (if status j = ''canceled'' then []
              else [Job_status_line c (web_url j) (name j) (status j)]))) \<and>
   (\<not> is_target p j \<and> map_of (statuses st) (job_id j) = Some (status j)
    \<longrightarrow> (\<exists>st'. loop_body p st j = Inr st' \<and>
           target_statuses st' = target_statuses st \<and> statuses st' = statuses st \<and>
           trace st' =
             trace st @
             (if name j \<in> dependencies p \<and> status j = ''manual''
              then enable_job j False else [])))"
proof (intro conjI impI)
  assume "is_target p j \<and> map_of (target_statuses st) (job_id j) = Some (status j) \<and>
    map_of STATUS_COLORS (status j) = Some c"
  then have "is_target p j" "map_of (target_statuses st) (job_id j) = Some (status j)"
    "map_of STATUS_COLORS (status j) = Some c"
    by simp_all
  from loop_body_target_unchanged [OF this]
  show "\<exists>st'. loop_body p st j = Inr st' \<and>
           target_statuses st' = target_statuses st \<and> statuses st' = statuses st \<and>
           trace st' =
             trace st @
             (if force_manual p \<and> status j = ''manual'' then enable_job j True else []) @
             (if stress p \<and> status j \<in> {''success'', ''failed''} then retry_job j else []) @
             (if status j = ''canceled'' then []
              else [Job_status_line c (web_url j) (name j) (status j)])"
    by simp
next
  assume "\<not> is_target p j \<and> map_of (statuses st) (job_id j) = Some (status j)"
  then have "\<not> is_target p j" "map_of (statuses st) (job_id j) = Some (status j)"
    by simp_all
  from loop_body_other_unchanged [OF this]
  show "\<exists>st'. loop_body p st j = Inr st' \<and>
           target_statuses st' = target_statuses st \<and> statuses st' = statuses st \<and>
           trace st' =
             trace st @
             (if name j \<in> dependencies p \<and> status j = ''manual''
              then enable_job j False else [])"
    by simp
qed

theorem repolled_unchanged_status_witness:
  "is_target ex_params (ex_job 1 ''build-a'' ''running'') \<and>
   map_of STATUS_COLORS ''running'' = Some Fore_BLUE \<and>
   (\<exists>st'. loop_body ex_params
       \<lparr>statuses = [(2, ''manual'')], target_statuses = [(1, ''running'')],
        stress_succ = 0, stress_fail = 0, to_cancel = [], trace = []\<rparr>
       (ex_job 1 ''build-a'' ''running'') = Inr st' \<and>
      target_statuses st' = [(1, ''running'')] \<and> statuses st' = [(2, ''manual'')] \<and>
      trace st' = [Job_status_line Fore_BLUE ''https://ci/build-a'' ''build-a'' ''running'']) \<and>
   \<not> is_target ex_params (ex_job 2 ''deps'' ''manual'') \<and>
   (\<exists>st'. loop_body ex_params
       \<lparr>statuses = [(2, ''manual'')], target_statuses = [(1, ''running'')],
        stress_succ = 0, stress_fail = 0, to_cancel = [], trace = []\<rparr>
       (ex_job 2 ''deps'' ''manual'') = Inr st' \<and>
      target_statuses st' = [(1, ''running'')] \<and> statuses st' = [(2, ''manual'')] \<and>
      trace st' = [Play_request 2, Enabled_line False ''deps''])"
proof -
  let ?st = "\<lparr>statuses = [(2, ''manual'')], target_statuses = [(1, ''running'')],
        stress_succ = 0, stress_fail = 0, to_cancel = [], trace = []\<rparr>"
  have a: "is_target ex_params (ex_job 1 ''build-a'' ''running'')"
    by (simp add: is_target_def ex_params_def ex_job_def)
  have b: "map_of STATUS_COLORS ''running'' = Some Fore_BLUE"
    by (simp add: STATUS_COLORS_def)
  have c: "\<not> is_target ex_params (ex_job 2 ''deps'' ''manual'')"
    by (simp add: is_target_def ex_params_def ex_job_def)
  have d: "\<not> force_manual ex_params" "\<not> stress ex_params"
    "dependencies ex_params = {''deps''}"
    by (simp_all add: ex_params_def)
  from repolled_unchanged_status [of ex_params "ex_job 1 ''build-a'' ''running''" ?st Fore_BLUE]
    a b d
  have e: "\<exists>st'. loop_body ex_params ?st (ex_job 1 ''build-a'' ''running'') = Inr st' \<and>
      target_statuses st' = [(1, ''running'')] \<and> statuses st' = [(2, ''manual'')] \<and>
      trace st' = [Job_status_line Fore_BLUE ''https://ci/build-a'' ''build-a'' ''running'']"
    by (simp add: ex_job_def)
  from repolled_unchanged_status [of ex_params "ex_job 2 ''deps'' ''manual''" ?st Fore_BLUE]
    c d
  have f: "\<exists>st'. loop_body ex_params ?st (ex_job 2 ''deps'' ''manual'') = Inr st' \<and>
      target_statuses st' = [(1, ''running'')] \<and> statuses st' = [(2, ''manual'')] \<and>
      trace st' = [Play_request 2, Enabled_line False ''deps'']"
    by (simp add: ex_job_def enable_job_def)
  from a b c e f show ?thesis by blast
qed

section \<open>Stress mode\<close>

lemma loop_body_counters:
  assumes "loop_body p st j = Inr st'"
  shows "stress_succ st' =
           stress_succ st +
             (if stress p \<and> is_target p j \<and> status j = ''success'' then 1 else 0) \<and>
         stress_fail st' =
           stress_fail st +
             (if stress p \<and> is_target p j \<and> status j = ''failed'' then 1 else 0)"
  using assms
  by (auto simp: loop_body_def Let_def emit_def split: if_splits sum.splits)

lemma scan_jobs_counters:
  "scan_jobs p st jobs = Inr st' \<Longrightarrow>
   stress_succ st' =
     stress_succ st +
       int (length (filter (\<lambda>j. stress p \<and> is_target p j \<and> status j = ''success'') jobs)) \<and>
   stress_fail st' =
     stress_fail st +
       int (length (filter (\<lambda>j. stress p \<and> is_target p j \<and> status j = ''failed'') jobs))"
proof (induction jobs arbitrary: st)
  case Nil
  then show ?case by simp
next
  case (Cons j js)
  from Cons.prems obtain st1 where b: "loop_body p st j = Inr st1"
    and s: "scan_jobs p st1 js = Inr st'"
    by (auto split: sum.splits)
  from loop_body_counters [OF b] Cons.IH [OF s]
  show ?case by simp
qed

lemma iteration_stress:
  assumes "stress p"
  shows "iteration p st jobs =
         (case scan_jobs p (st\<lparr>to_cancel := []\<rparr>) jobs of
            Inl e \<Rightarrow> Inl e
          | Inr st1 \<Rightarrow>
              Inr (emit (Tally_line (stress_succ st1) (stress_fail st1)
                         # pretty_wait REFRESH_WAIT_JOBS)
                     (if target_given p then emit (cancel_jobs (to_cancel st1)) st1
                      else st1), None))"
  using assms by (simp add: iteration_def Let_def emit_def split: sum.splits)

lemma monitor_loop_stress_not_returned:
  assumes "stress p"
  shows "monitor_loop p st polls \<noteq> Returned r st'"
proof (induction polls arbitrary: st)
  case Nil
  show ?case by simp
next
  case (Cons jobs polls)
  show ?case
  proof (cases "scan_jobs p (st\<lparr>to_cancel := []\<rparr>) jobs")
    case (Inl e)
    then show ?thesis by (simp add: iteration_stress [OF assms])
  next
    case (Inr st1)
    then show ?thesis using Cons.IH by (simp add: iteration_stress [OF assms])
  qed
qed

lemma monitor_loop_stress_polling:
  assumes "stress p"
  shows "\<forall>jobs \<in> set polls. \<forall>j \<in> set jobs. status j \<in> fst ` set STATUS_COLORS \<Longrightarrow>
         \<exists>st'. monitor_loop p st polls = Still_polling st'"
proof (induction polls arbitrary: st)
  case Nil
  show ?case by simp
next
  case (Cons jobs polls)
  then have "\<forall>j \<in> set jobs. status j \<in> fst ` set STATUS_COLORS" by simp
  then obtain st1 where s: "scan_jobs p (st\<lparr>to_cancel := []\<rparr>) jobs = Inr st1"
    using scan_jobs_known by blast
  from Cons.prems have "\<forall>jobs \<in> set polls. \<forall>j \<in> set jobs. status j \<in> fst ` set STATUS_COLORS"
    by simp
  from Cons.IH [OF this] s show ?case
    by (simp add: iteration_stress [OF assms])
qed

text \<open>
  Claim C7. In stress mode \<open>monitor_pipeline\<close> never returns: whatever the polls, the run
  is not a return, and with statuses among the keys of \<open>STATUS_COLORS\<close> it is still in
  its loop after every finite number of polls. An iteration whose scan completes prints
  the tally of the two counters, waits and loops again without any of the tests of lines
  164 to 173. The scan of a job listing adds to the success counter the number of target
  jobs of the listing whose status is \<open>success\<close>, and to the failure counter the number
  of those whose status is \<open>failed\<close>: one per observation.
\<close>

theorem stress_mode_never_returns:
  assumes "stress p"
  shows "(\<forall>r st'. monitor_loop p st polls \<noteq> Returned r st') \<and>
         ((\<forall>jobs \<in> set polls. \<forall>j \<in> set jobs. status j \<in> fst ` set STATUS_COLORS)
          \<longrightarrow> (\<exists>st'. monitor_loop p st polls = Still_polling st')) \<and>
         (scan_jobs p (st\<lparr>to_cancel := []\<rparr>) jobs = Inr st1
          \<longrightarrow> iteration p st jobs =
                Inr (emit (Tally_line (stress_succ st1) (stress_fail st1)
                           # pretty_wait REFRESH_WAIT_JOBS)
                       (if target_given p then emit (cancel_jobs (to_cancel st1)) st1
                        else st1), None) \<and>
              monitor_loop p st (jobs # polls) =
                monitor_loop p
                  (emit (Tally_line (stress_succ st1) (stress_fail st1)
                         # pretty_wait REFRESH_WAIT_JOBS)
                     (if target_given p then emit (cancel_jobs (to_cancel st1)) st1
                      else st1)) polls \<and>
              stress_succ st1 =
                stress_succ st +
                  int (length (filter (\<lambda>j. is_target p j \<and> status j = ''success'') jobs)) \<and>
              stress_fail st1 =
                stress_fail st +
                  int (length (filter (\<lambda>j. is_target p j \<and> status j = ''failed'') jobs)))"
proof (intro conjI impI allI)
  fix r st'
  show "monitor_loop p st polls \<noteq> Returned r st'"
    by (rule monitor_loop_stress_not_returned [OF assms])
next
  assume "\<forall>jobs \<in> set polls. \<forall>j \<in> set jobs. status j \<in> fst ` set STATUS_COLORS"
  then show "\<exists>st'. monitor_loop p st polls = Still_polling st'"
    by (rule monitor_loop_stress_polling [OF assms])
next
  assume s: "scan_jobs p (st\<lparr>to_cancel := []\<rparr>) jobs = Inr st1"
  then show it: "iteration p st jobs =
                Inr (emit (Tally_line (stress_succ st1) (stress_fail st1)
                           # pretty_wait REFRESH_WAIT_JOBS)
                       (if target_given p then emit (cancel_jobs (to_cancel st1)) st1
                        else st1), None)"
    by (simp add: iteration_stress [OF assms])
  then show "monitor_loop p st (jobs # polls) =
                monitor_loop p
                  (emit (Tally_line (stress_succ st1) (stress_fail st1)
                         # pretty_wait REFRESH_WAIT_JOBS)
                     (if target_given p then emit (cancel_jobs (to_cancel st1)) st1
                      else st1)) polls"
    by simp
  from scan_jobs_counters [OF s] assms
  show "stress_succ st1 =
                stress_succ st +
                  int (length (filter (\<lambda>j. is_target p j \<and> status j = ''success'') jobs))"
    and "stress_fail st1 =
                stress_fail st +
                  int (length (filter (\<lambda>j. is_target p j \<and> status j = ''failed'') jobs))"
    by simp_all
qed

theorem stress_mode_never_returns_witness:
  "stress (ex_params\<lparr>stress := True\<rparr>) \<and>
   monitor_loop (ex_params\<lparr>stress := True\<rparr>) initial_state
     [[ex_job 1 ''build-a'' ''success''], [ex_job 1 ''build-a'' ''failed'']] =
   Still_polling
     \<lparr>statuses = [], target_statuses = [(1, ''failed'')], stress_succ = 1,
      stress_fail = 1, to_cancel = [],
      trace =
        [Retry_request 1, Retried_line ''build-a'',
         Job_change_line Fore_GREEN ''https://ci/build-a'' ''build-a'' ''success'',
         Tally_line 1 0, Wait_tick 6, Wait_tick 5, Wait_tick 4, Wait_tick 3,
         Wait_tick 2, Wait_tick 1,
         Retry_request 1, Retried_line ''build-a'',
         Job_change_line Fore_RED ''https://ci/build-a'' ''build-a'' ''failed'',
         Tally_line 1 1, Wait_tick 6, Wait_tick 5, Wait_tick 4, Wait_tick 3,
         Wait_tick 2, Wait_tick 1]\<rparr> \<and>
   (\<forall>r st'. monitor_loop (ex_params\<lparr>stress := True\<rparr>) initial_state
      [[ex_job 1 ''build-a'' ''success''], [ex_job 1 ''build-a'' ''failed'']] \<noteq>
      Returned r st')"
proof -
  let ?p = "ex_params\<lparr>stress := True\<rparr>"
  let ?a = "ex_job 1 ''build-a'' ''success''"
  let ?b = "ex_job 1 ''build-a'' ''failed''"
  let ?st1 = "\<lparr>statuses = [], target_statuses = [(1, ''success'')], stress_succ = 1,
      stress_fail = 0, to_cancel = [],
      trace = [Retry_request 1, Retried_line ''build-a'',
         Job_change_line Fore_GREEN ''https://ci/build-a'' ''build-a'' ''success'']\<rparr>"
  have a: "stress ?p" by simp
  have tg: "target_given ?p" by (simp add: target_given_def ex_params_def)
  have s1: "scan_jobs ?p (initial_state\<lparr>to_cancel := []\<rparr>) [?a] = Inr ?st1"
    by (simp add: ex_params_def ex_job_def initial_state_def loop_body_def is_target_def
        status_changed_def print_job_status_change_def STATUS_COLORS_def emit_def
        retry_job_def)
  from stress_mode_never_returns [OF a, of initial_state "[[?b]]" "[?a]" ?st1] s1 tg
  have step: "monitor_loop ?p initial_state [[?a], [?b]] =
      monitor_loop ?p
        (emit (Tally_line 1 0 # pretty_wait REFRESH_WAIT_JOBS)
           (emit (cancel_jobs []) ?st1)) [[?b]]"
    by simp
  have rest: "monitor_loop ?p
        (emit (Tally_line 1 0 # pretty_wait REFRESH_WAIT_JOBS)
           (emit (cancel_jobs []) ?st1)) [[?b]] =
     Still_polling
     \<lparr>statuses = [], target_statuses = [(1, ''failed'')], stress_succ = 1,
      stress_fail = 1, to_cancel = [],
      trace =
        [Retry_request 1, Retried_line ''build-a'',
         Job_change_line Fore_GREEN ''https://ci/build-a'' ''build-a'' ''success'',
         Tally_line 1 0, Wait_tick 6, Wait_tick 5, Wait_tick 4, Wait_tick 3,
         Wait_tick 2, Wait_tick 1,
         Retry_request 1, Retried_line ''build-a'',
         Job_change_line Fore_RED ''https://ci/build-a'' ''build-a'' ''failed'',
         Tally_line 1 1, Wait_tick 6, Wait_tick 5, Wait_tick 4, Wait_tick 3,
         Wait_tick 2, Wait_tick 1]\<rparr>"
    by (simp add: iteration_def ex_params_def ex_job_def loop_body_def is_target_def
        status_changed_def target_given_def print_job_status_change_def STATUS_COLORS_def
        emit_def cancel_jobs_def retry_job_def pretty_wait_jobs Let_def)
  from stress_mode_never_returns [OF a, of initial_state "[[?a], [?b]]"]
  have nr: "\<forall>r st'. monitor_loop ?p initial_state [[?a], [?b]] \<noteq> Returned r st'"
    by blast
  from a step rest nr show ?thesis by simp
qed

section \<open>The log streamer\<close>

lemma log_lines_append [simp]: "log_lines (xs @ ys) = log_lines xs @ log_lines ys"
  by (simp add: log_lines_def)

lemma log_lines_map_Log_line [simp]: "log_lines (map Log_line ls) = ls"
  by (induction ls) (simp_all add: log_lines_def)

lemma log_lines_pretty_wait [simp]: "log_lines (pretty_wait n) = []"
  by (simp add: log_lines_def pretty_wait_def)

lemma log_lines_Finished [simp]: "log_lines [Finished_line u] = []"
  by (simp add: log_lines_def)

lemma Finished_not_in_pretty_wait [simp]: "Finished_line u \<notin> set (pretty_wait n)"
  by (auto simp: pretty_wait_def)

lemma print_log_loop_None:
  "print_log_loop n polls = None \<longleftrightarrow>
   (\<forall>q \<in> set polls. status (fst q) \<notin> set COMPLETED_STATUSES)"
  by (induction n polls rule: print_log_loop.induct) (auto simp: Let_def)

lemma print_log_loop_stops:
  assumes "status j \<in> set COMPLETED_STATUSES"
  shows "\<forall>q \<in> set pre. status (fst q) \<notin> set COMPLETED_STATUSES \<Longrightarrow>
         print_log_loop n (pre @ (j, ls) # post) = print_log_loop n (pre @ [(j, ls)])"
  using assms
  by (induction n pre rule: print_log_loop.induct) (auto simp: Let_def)

lemma print_log_loop_output:
  assumes "status j \<in> set COMPLETED_STATUSES"
  shows "\<forall>q \<in> set pre. status (fst q) \<notin> set COMPLETED_STATUSES \<Longrightarrow>
         \<exists>body. print_log_loop n (pre @ [(j, ls)]) = Some (body @ [Finished_line (web_url j)]) \<and>
                log_lines body = fresh_lines n (map snd pre @ [ls]) \<and>
                (\<forall>u. Finished_line u \<notin> set body)"
proof (induction pre arbitrary: n)
  case Nil
  have "print_log_loop n [(j, ls)] = Some (map Log_line (drop n ls) @ [Finished_line (web_url j)])"
    using assms by (simp add: Let_def)
  moreover have "\<forall>u. Finished_line u \<notin> set (map Log_line (drop n ls))"
    by auto
  ultimately show ?case by auto
next
  case (Cons q pre)
  obtain j' ls' where q: "q = (j', ls')" by (cases q)
  with Cons.prems have nc: "status j' \<notin> set COMPLETED_STATUSES"
    and rest: "\<forall>q \<in> set pre. status (fst q) \<notin> set COMPLETED_STATUSES"
    by simp_all
  from Cons.IH [OF rest, of "length ls'"] obtain body where
    b: "print_log_loop (length ls') (pre @ [(j, ls)]) = Some (body @ [Finished_line (web_url j)])"
    and l: "log_lines body = fresh_lines (length ls') (map snd pre @ [ls])"
    and f: "\<forall>u. Finished_line u \<notin> set body"
    by blast
  let ?body = "map Log_line (drop n ls') @ pretty_wait REFRESH_WAIT_LOG @ body"
  have "print_log_loop n ((q # pre) @ [(j, ls)]) = Some (?body @ [Finished_line (web_url j)])"
    using q nc b by (simp add: Let_def)
  moreover have "log_lines ?body = fresh_lines n (map snd (q # pre) @ [ls])"
    using q l by simp
  moreover have "\<forall>u. Finished_line u \<notin> set ?body"
    using f by auto
  ultimately show ?case by blast
qed

lemma growing_prefix_last:
  "growing (ls # lss) \<Longrightarrow> prefix ls (last (ls # lss))"
proof (induction lss arbitrary: ls)
  case Nil
  show ?case by simp
next
  case (Cons ls' lss)
  then have "prefix ls ls'" and "prefix ls' (last (ls' # lss))"
    by simp_all
  then have "prefix ls (last (ls' # lss))" by (rule prefix_order.trans)
  then show ?case by simp
qed

lemma fresh_lines_growing:
  "growing (ls # lss) \<Longrightarrow> n \<le> length ls \<Longrightarrow>
   fresh_lines n (ls # lss) = drop n (last (ls # lss))"
proof (induction lss arbitrary: n ls)
  case Nil
  show ?case by simp
next
  case (Cons ls' lss)
  then have g: "growing (ls' # lss)" and p: "prefix ls ls'"
    by simp_all
  from p have le: "length ls \<le> length ls'" by (rule prefix_length_le)
  from Cons.IH [OF g le]
  have ih: "fresh_lines (length ls) (ls' # lss) = drop (length ls) (last (ls' # lss))" .
  from growing_prefix_last [OF Cons.prems(1)] obtain zs where
    z: "last (ls # ls' # lss) = ls @ zs"
    by (auto simp: prefix_def)
  then have z': "last (ls' # lss) = ls @ zs" by simp
  have "fresh_lines n (ls # ls' # lss) = drop n ls @ fresh_lines (length ls) (ls' # lss)"
    by simp
  also have "\<dots> = drop n ls @ zs" using ih z' by simp
  also have "\<dots> = drop n (ls @ zs)" using Cons.prems(2) by simp
  finally show ?case using z by simp
qed

text \<open>
  Claim C9. The log streamer returns exactly when some poll of the job shows a status of
  \<open>COMPLETED_STATUSES\<close>, and it stops at the first such poll: later polls are not
  consulted. What it has printed then is, for each fetch of the whole log up to that poll,
  the lines beyond the count reached by the fetch before it (none for the first), then
  the completion notice, once and last. When the log only accumulates, the lines printed
  are those of the final log, each once and in order.
\<close>

theorem log_streamer_prints_new_lines_until_completed:
  "(print_log polls = None \<longleftrightarrow>
      (\<forall>q \<in> set polls. status (fst q) \<notin> {''success'', ''failed''})) \<and>
   ((\<forall>q \<in> set pre. status (fst q) \<notin> {''success'', ''failed''}) \<and>
    status j \<in> {''success'', ''failed''}
    \<longrightarrow> print_log (pre @ (j, ls) # post) = print_log (pre @ [(j, ls)]) \<and>
        (\<exists>body. print_log (pre @ (j, ls) # post) = Some (body @ [Finished_line (web_url j)]) \<and>
           log_lines body = fresh_lines 0 (map snd pre @ [ls]) \<and>
           (growing (map snd pre @ [ls]) \<longrightarrow> log_lines body = ls) \<and>
           (\<forall>u. Finished_line u \<notin> set body)))"
proof (intro conjI impI)
  show "print_log polls = None \<longleftrightarrow>
      (\<forall>q \<in> set polls. status (fst q) \<notin> {''success'', ''failed''})"
    using print_log_loop_None [of 0 polls]
    by (simp add: print_log_def COMPLETED_STATUSES_def)
next
  assume h: "(\<forall>q \<in> set pre. status (fst q) \<notin> {''success'', ''failed''}) \<and>
    status j \<in> {''success'', ''failed''}"
  then have c: "status j \<in> set COMPLETED_STATUSES"
    and n: "\<forall>q \<in> set pre. status (fst q) \<notin> set COMPLETED_STATUSES"
    by (simp_all add: COMPLETED_STATUSES_def)
  from print_log_loop_stops [OF c n]
  show stop: "print_log (pre @ (j, ls) # post) = print_log (pre @ [(j, ls)])"
    by (simp add: print_log_def)
  from print_log_loop_output [OF c n, of 0 ls] obtain body where
    b: "print_log_loop 0 (pre @ [(j, ls)]) = Some (body @ [Finished_line (web_url j)])"
    and l: "log_lines body = fresh_lines 0 (map snd pre @ [ls])"
    and f: "\<forall>u. Finished_line u \<notin> set body"
    by blast
  have g: "growing (map snd pre @ [ls]) \<longrightarrow> log_lines body = ls"
  proof
    assume gr: "growing (map snd pre @ [ls])"
    obtain x xs where e: "map snd pre @ [ls] = x # xs"
      by (cases pre) auto
    then have "last (x # xs) = ls"
      by (metis last_snoc)
    with fresh_lines_growing [of x xs 0] gr e l show "log_lines body = ls"
      by simp
  qed
  from b l f g stop
  show "\<exists>body. print_log (pre @ (j, ls) # post) = Some (body @ [Finished_line (web_url j)]) \<and>
           log_lines body = fresh_lines 0 (map snd pre @ [ls]) \<and>
           (growing (map snd pre @ [ls]) \<longrightarrow> log_lines body = ls) \<and>
           (\<forall>u. Finished_line u \<notin> set body)"
    by (simp add: print_log_def)
qed

theorem log_streamer_prints_new_lines_until_completed_witness:
  "status (ex_job 7 ''build-a'' ''running'') \<notin> {''success'', ''failed''} \<and>
   status (ex_job 7 ''build-a'' ''failed'') \<in> {''success'', ''failed''} \<and>
   growing [[''one''], [''one'', ''two'', ''three''], [''one'', ''two'', ''three'', ''four'']] \<and>
   print_log
     [(ex_job 7 ''build-a'' ''running'', [''one'']),
      (ex_job 7 ''build-a'' ''running'', [''one'', ''two'', ''three'']),
      (ex_job 7 ''build-a'' ''failed'', [''one'', ''two'', ''three'', ''four'']),
      (ex_job 7 ''build-a'' ''failed'', [''one'', ''two'', ''three'', ''four'', ''five''])] =
   print_log
     [(ex_job 7 ''build-a'' ''running'', [''one'']),
      (ex_job 7 ''build-a'' ''running'', [''one'', ''two'', ''three'']),
      (ex_job 7 ''build-a'' ''failed'', [''one'', ''two'', ''three'', ''four''])] \<and>
   (\<exists>body. print_log
       [(ex_job 7 ''build-a'' ''running'', [''one'']),
        (ex_job 7 ''build-a'' ''running'', [''one'', ''two'', ''three'']),
        (ex_job 7 ''build-a'' ''failed'', [''one'', ''two'', ''three'', ''four'']),
        (ex_job 7 ''build-a'' ''failed'', [''one'', ''two'', ''three'', ''four'', ''five''])] =
       Some (body @ [Finished_line ''https://ci/build-a'']) \<and>
      log_lines body = [''one'', ''two'', ''three'', ''four''] \<and>
      (\<forall>u. Finished_line u \<notin> set body)) \<and>
   print_log [(ex_job 7 ''build-a'' ''running'', [''one'']),
              (ex_job 7 ''build-a'' ''canceled'', [''one''])] = None"
proof -
  let ?pre = "[(ex_job 7 ''build-a'' ''running'', [''one'']),
               (ex_job 7 ''build-a'' ''running'', [''one'', ''two'', ''three''])]"
  let ?j = "ex_job 7 ''build-a'' ''failed''"
  let ?ls = "[''one'', ''two'', ''three'', ''four'']"
  let ?post = "[(ex_job 7 ''build-a'' ''failed'', [''one'', ''two'', ''three'', ''four'', ''five''])]"
  let ?stuck = "[(ex_job 7 ''build-a'' ''running'', [''one'']),
              (ex_job 7 ''build-a'' ''canceled'', [''one''])]"
  have a: "\<forall>q \<in> set ?pre. status (fst q) \<notin> {''success'', ''failed''}"
    by (simp add: ex_job_def)
  have b: "status ?j \<in> {''success'', ''failed''}"
    by (simp add: ex_job_def)
  have c: "growing (map snd ?pre @ [?ls])" by simp
  have d: "\<forall>q \<in> set ?stuck. status (fst q) \<notin> {''success'', ''failed''}"
    by (simp add: ex_job_def)
  have u: "web_url ?j = ''https://ci/build-a''" by (simp add: ex_job_def)
  from log_streamer_prints_new_lines_until_completed [of ?stuck] d
  have e: "print_log ?stuck = None" by blast
  let ?long = "[(ex_job 7 ''build-a'' ''running'', [''one'']),
      (ex_job 7 ''build-a'' ''running'', [''one'', ''two'', ''three'']),
      (ex_job 7 ''build-a'' ''failed'', [''one'', ''two'', ''three'', ''four'']),
      (ex_job 7 ''build-a'' ''failed'', [''one'', ''two'', ''three'', ''four'', ''five''])]"
  let ?short = "[(ex_job 7 ''build-a'' ''running'', [''one'']),
      (ex_job 7 ''build-a'' ''running'', [''one'', ''two'', ''three'']),
      (ex_job 7 ''build-a'' ''failed'', [''one'', ''two'', ''three'', ''four''])]"
  note inst = log_streamer_prints_new_lines_until_completed [of "[]" ?pre ?j ?ls ?post]
  from inst a b have r: "print_log (?pre @ (?j, ?ls) # ?post) = print_log (?pre @ [(?j, ?ls)]) \<and>
        (\<exists>body. print_log (?pre @ (?j, ?ls) # ?post) =
                  Some (body @ [Finished_line (web_url ?j)]) \<and>
           log_lines body = fresh_lines 0 (map snd ?pre @ [?ls]) \<and>
           (growing (map snd ?pre @ [?ls]) \<longrightarrow> log_lines body = ?ls) \<and>
           (\<forall>u. Finished_line u \<notin> set body))"
    by blast
  from r [THEN conjunct1] have f1: "print_log ?long = print_log ?short"
    by simp
  from r [THEN conjunct2] obtain body where
    b1: "print_log (?pre @ (?j, ?ls) # ?post) = Some (body @ [Finished_line (web_url ?j)])"
    and b2: "growing (map snd ?pre @ [?ls]) \<longrightarrow> log_lines body = ?ls"
    and b3: "\<forall>u. Finished_line u \<notin> set body"
    by blast
  from b1 u have "print_log ?long = Some (body @ [Finished_line ''https://ci/build-a''])"
    by simp
  moreover from b2 c have "log_lines body = ?ls" by blast
  ultimately have f2: "\<exists>body. print_log ?long =
        Some (body @ [Finished_line ''https://ci/build-a'']) \<and>
      log_lines body = ?ls \<and> (\<forall>u. Finished_line u \<notin> set body)"
    using b3 by blast
  have g: "growing [[''one''], [''one'', ''two'', ''three''], ?ls]" by simp
  have a': "status (ex_job 7 ''build-a'' ''running'') \<notin> {''success'', ''failed''}"
    by (simp add: ex_job_def)
  from a' b g e f1 f2 show ?thesis by blast
qed

section \<open>After the monitor\<close>

lemma evaluate_handoff_no_code:
  "evaluate ts = Some (Some jid, ret) \<Longrightarrow> ret = None"
  by (auto simp: evaluate_def split: if_splits)

lemma iteration_handoff_no_code:
  "iteration p st jobs = Inr (st', Some (Some jid, ret)) \<Longrightarrow> ret = None"
  by (auto simp: iteration_def Let_def emit_def evaluate_handoff_no_code
      split: sum.splits if_splits option.splits)

lemma monitor_loop_handoff_no_code:
  "monitor_loop p st polls = Returned (Some jid, ret) st' \<Longrightarrow> ret = None"
proof (induction polls arbitrary: st)
  case Nil
  then show ?case by simp
next
  case (Cons jobs polls)
  show ?case
  proof (cases "iteration p st jobs")
    case (Inl e)
    with Cons.prems show ?thesis by simp
  next
    case (Inr x)
    obtain st1 r where x: "x = (st1, r)" by (cases x)
    show ?thesis
    proof (cases r)
      case None
      with Inr x Cons.prems have "monitor_loop p st1 polls = Returned (Some jid, ret) st'"
        by simp
      then show ?thesis by (rule Cons.IH)
    next
      case (Some res)
      with Inr x Cons.prems have "res = (Some jid, ret)" by simp
      with Inr x Some have "iteration p st jobs = Inr (st1, Some (Some jid, ret))" by simp
      then show ?thesis by (rule iteration_handoff_no_code)
    qed
  qed
qed

text \<open>
  Claim C8. When \<open>monitor_pipeline\<close> returns a job id, the exit code it returns with it
  is \<open>None\<close>; when that id is truthy the script streams the job's log, and once the
  streamer has returned the script ends in \<open>sys.exit(None)\<close>, exit status 0, whatever
  status the streamed job ended with.
\<close>

theorem handoff_exits_zero:
  assumes "monitor_pipeline p polls = Returned (Some jid, ret) st"
    and "jid \<noteq> 0"
    and "print_log log_polls = Some out"
  shows "ret = None \<and> after_monitor (Some jid, ret) log_polls = Some 0"
proof -
  from assms(1) have "ret = None"
    unfolding monitor_pipeline_def by (rule monitor_loop_handoff_no_code)
  with assms(2,3) show ?thesis
    by (simp add: after_monitor_def sys_exit_def)
qed

theorem handoff_exits_zero_witness:
  "monitor_pipeline ex_params [[ex_job 7 ''build-a'' ''running'']] =
     Returned (Some 7, None)
       \<lparr>statuses = [], target_statuses = [(7, ''running'')], stress_succ = 0,
        stress_fail = 0, to_cancel = [],
        trace = [Job_change_line Fore_BLUE ''https://ci/build-a'' ''build-a'' ''running'',
                 Separator_line]\<rparr> \<and>
   print_log [(ex_job 7 ''build-a'' ''running'', [''one'']),
              (ex_job 7 ''build-a'' ''failed'', [''one'', ''two''])] =
     Some [Log_line ''one'', Wait_tick 10, Wait_tick 9, Wait_tick 8, Wait_tick 7,
           Wait_tick 6, Wait_tick 5, Wait_tick 4, Wait_tick 3, Wait_tick 2, Wait_tick 1,
           Log_line ''two'', Finished_line ''https://ci/build-a''] \<and>
   after_monitor (Some 7, None)
     [(ex_job 7 ''build-a'' ''running'', [''one'']),
      (ex_job 7 ''build-a'' ''failed'', [''one'', ''two''])] = Some 0"
proof -
  let ?st = "\<lparr>statuses = [], target_statuses = [(7, ''running'')], stress_succ = 0,
        stress_fail = 0, to_cancel = [],
        trace = [Job_change_line Fore_BLUE ''https://ci/build-a'' ''build-a'' ''running'',
                 Separator_line]\<rparr>"
  let ?lp = "[(ex_job 7 ''build-a'' ''running'', [''one'']),
              (ex_job 7 ''build-a'' ''failed'', [''one'', ''two''])]"
  have w: "pretty_wait REFRESH_WAIT_LOG =
     [Wait_tick 10, Wait_tick 9, Wait_tick 8, Wait_tick 7,
      Wait_tick 6, Wait_tick 5, Wait_tick 4, Wait_tick 3, Wait_tick 2, Wait_tick 1]"
    by code_simp
  have a: "monitor_pipeline ex_params [[ex_job 7 ''build-a'' ''running'']] =
     Returned (Some 7, None) ?st"
    by (simp add: monitor_pipeline_def initial_state_def iteration_def ex_params_def
      ex_job_def loop_body_def is_target_def status_changed_def target_given_def
      print_job_status_change_def STATUS_COLORS_def emit_def cancel_jobs_def
      evaluate_def Let_def)
  have b: "(7::int) \<noteq> 0" by simp
  have c: "print_log ?lp =
     Some [Log_line ''one'', Wait_tick 10, Wait_tick 9, Wait_tick 8, Wait_tick 7,
           Wait_tick 6, Wait_tick 5, Wait_tick 4, Wait_tick 3, Wait_tick 2, Wait_tick 1,
           Log_line ''two'', Finished_line ''https://ci/build-a'']"
    by (simp add: print_log_def ex_job_def COMPLETED_STATUSES_def Let_def w)
  from handoff_exits_zero [OF a b c] a c show ?thesis by simp
qed

end
